theory Spec2Isabelle
  imports Complex_Main
begin

section \<open>Python values of the chat relay (app.py)\<close>

text \<open>
  A Python \<open>str\<close> is a sequence of code points, and \<open>len\<close> counts code points, so a
  string is a list of natural numbers. Literals of the source are written in ASCII and
  converted with \<open>lit\<close>.
\<close>

type_synonym pystr = "nat list"

abbreviation (input) lit :: "string \<Rightarrow> pystr" where
  "lit s \<equiv> map of_char s"

text \<open>
  A \<open>float\<close>, as far as truth value, equality and hashing see it: a finite float is
  given by its exact value (\<open>Finite 0\<close> is \<open>0.0\<close>, \<open>NegZero\<close> is \<open>-0.0\<close>),
  \<open>Infinity True\<close> is \<open>inf\<close>, \<open>Infinity False\<close> is \<open>-inf\<close>. \<open>json.loads\<close> reads the
  literals \<open>NaN\<close>, \<open>Infinity\<close> and \<open>-Infinity\<close>; for \<open>NaN\<close> it returns the one object
  \<open>json.decoder.NaN\<close>, every time.
\<close>

datatype pyfloat = Finite rat | NegZero | Infinity bool | NaN

text \<open>
  The values that \<open>json.loads\<close>, \<open>request.json\<close> and \<open>response.json()\<close> produce.
  \<open>JNull\<close> is Python's \<open>None\<close>; a \<open>JDict\<close> lists the items of a \<open>dict\<close> (keys are
  distinct in a dict; \<open>map_of\<close> reads it).
\<close>

datatype json =
    JNull
  | JBool bool
  | JInt int
  | JFloat pyfloat
  | JStr pystr
  | JList "json list"
  | JDict "(pystr \<times> json) list"

datatype exn = AttributeError | TypeError | ValueError | KeyError

text \<open>Truth value of an object, as \<open>if x\<close> and \<open>not x\<close> test it.\<close>

fun truthy :: "json \<Rightarrow> bool" where
  "truthy JNull = False"
| "truthy (JBool b) = b"
| "truthy (JInt i) = (i \<noteq> 0)"
| "truthy (JFloat (Finite q)) = (q \<noteq> 0)"
| "truthy (JFloat NegZero) = False"
| "truthy (JFloat (Infinity b)) = True"
| "truthy (JFloat NaN) = True"
| "truthy (JStr s) = (s \<noteq> [])"
| "truthy (JList xs) = (xs \<noteq> [])"
| "truthy (JDict kvs) = (kvs \<noteq> [])"

text \<open>
  \<open>x.get(k, d)\<close>: only a \<open>dict\<close> has the method, every other value raises
  \<open>AttributeError\<close> (the result \<open>None\<close> here).
\<close>

fun py_get :: "json \<Rightarrow> pystr \<Rightarrow> json \<Rightarrow> json option" where
  "py_get (JDict kvs) k d = Some (case map_of kvs k of None \<Rightarrow> d | Some v \<Rightarrow> v)"
| "py_get _ k d = None"

text \<open>
  \<open>str.isspace\<close> of a single code point and \<open>str.strip()\<close> without argument, which
  removes the whitespace at both ends.
\<close>

definition isspace :: "nat \<Rightarrow> bool" where
  "isspace c \<longleftrightarrow>
     (9 \<le> c \<and> c \<le> 13) \<or> (28 \<le> c \<and> c \<le> 32) \<or> c = 133 \<or> c = 160 \<or> c = 5760 \<or>
     (8192 \<le> c \<and> c \<le> 8202) \<or> c = 8232 \<or> c = 8233 \<or> c = 8239 \<or> c = 8287 \<or> c = 12288"

definition strip :: "pystr \<Rightarrow> pystr" where
  "strip s = rev (dropWhile isspace (rev (dropWhile isspace s)))"

section \<open>The registry \<open>active_connections\<close>\<close>

text \<open>
  A \<open>dict\<close> finds a key by its hash and then by identity or \<open>==\<close>. Among the values
  above, numbers are equal when their values are (\<open>True == 1\<close>, \<open>1.0 == 1\<close>,
  \<open>-0.0 == 0\<close>) and equal numbers have the same hash, \<open>None\<close> equals only itself, a
  string only an equal string, and lists and dicts are unhashable: using one as a key
  raises \<open>TypeError\<close>. \<open>NaN\<close> is not equal to itself, but a dict finds the one \<open>NaN\<close>
  object by identity. A \<open>key\<close> is the class of the hashable values that a dict takes
  for the same key; \<open>KFrac\<close> is a finite float that is not an integer.
\<close>

datatype key = KNone | KInt int | KFrac rat | KInf bool | KNaN | KStr pystr

fun hash_key :: "json \<Rightarrow> key option" where
  "hash_key JNull = Some KNone"
| "hash_key (JBool b) = Some (KInt (if b then 1 else 0))"
| "hash_key (JInt i) = Some (KInt i)"
| "hash_key (JFloat (Finite q)) =
     Some (if q = of_int \<lfloor>q\<rfloor> then KInt \<lfloor>q\<rfloor> else KFrac q)"
| "hash_key (JFloat NegZero) = Some (KInt 0)"
| "hash_key (JFloat (Infinity b)) = Some (KInf b)"
| "hash_key (JFloat NaN) = Some KNaN"
| "hash_key (JStr s) = Some (KStr s)"
| "hash_key (JList xs) = None"
| "hash_key (JDict kvs) = None"

fun truthy_key :: "key \<Rightarrow> bool" where
  "truthy_key KNone = False"
| "truthy_key (KInt i) = (i \<noteq> 0)"
| "truthy_key (KFrac q) = (q \<noteq> 0)"
| "truthy_key (KInf b) = True"
| "truthy_key KNaN = True"
| "truthy_key (KStr s) = (s \<noteq> [])"

text \<open>
  \<open>k == v\<close> for a key \<open>k\<close> of a dict and a value \<open>v\<close>: the operator does not look at
  identity, so it is false on \<open>NaN\<close>; it is false on a list or a dict.
\<close>

definition py_eq :: "key \<Rightarrow> json \<Rightarrow> bool" where
  "py_eq k v \<longleftrightarrow> k \<noteq> KNaN \<and> hash_key v = Some k"

text \<open>
  A connection object \<open>ws\<close> is known by its identity. The registry is the dict
  \<open>active_connections\<close> (line 32), written as the list of its items in iteration
  order: assigning to a key that is present keeps its position, a new key goes last.
\<close>

type_synonym conn = nat

type_synonym registry = "(key \<times> conn) list"

text \<open>The dict operations on a key: assignment, \<open>in\<close>, \<open>pop(k, None)\<close> and \<open>get(k)\<close>.\<close>

fun dict_set :: "key \<Rightarrow> conn \<Rightarrow> registry \<Rightarrow> registry" where
  "dict_set k ws [] = [(k, ws)]"
| "dict_set k ws ((k', ws') # r) =
     (if k' = k then (k', ws) # r else (k', ws') # dict_set k ws r)"

definition dict_contains :: "key \<Rightarrow> registry \<Rightarrow> bool" where
  "dict_contains k r \<longleftrightarrow> k \<in> set (map fst r)"

definition dict_pop :: "key \<Rightarrow> registry \<Rightarrow> registry" where
  "dict_pop k r = filter (\<lambda>e. fst e \<noteq> k) r"

definition dict_lookup :: "registry \<Rightarrow> key \<Rightarrow> conn option" where
  "dict_lookup r k = map_of r k"

text \<open>
  The three statements of the websocket handler that use the registry with the value
  \<open>user_id\<close>. Each hashes the value first, which raises \<open>TypeError\<close> on a list or a
  dict. \<open>active_connections[user_id] = ws\<close> (line 171):
\<close>

definition register :: "json \<Rightarrow> conn \<Rightarrow> registry \<Rightarrow> exn + registry" where
  "register user_id ws r =
     (case hash_key user_id of
        None \<Rightarrow> Inl TypeError
      | Some k \<Rightarrow> Inr (dict_set k ws r))"

text \<open>\<open>user_id in active_connections\<close> (line 198):\<close>

definition is_registered :: "json \<Rightarrow> registry \<Rightarrow> exn + bool" where
  "is_registered user_id r =
     (case hash_key user_id of
        None \<Rightarrow> Inl TypeError
      | Some k \<Rightarrow> Inr (dict_contains k r))"

text \<open>\<open>del active_connections[user_id]\<close> (line 199): \<open>KeyError\<close> when the key is absent.\<close>

definition unregister :: "json \<Rightarrow> registry \<Rightarrow> exn + registry" where
  "unregister user_id r =
     (case hash_key user_id of
        None \<Rightarrow> Inl TypeError
      | Some k \<Rightarrow> if dict_contains k r then Inr (dict_pop k r) else Inl KeyError)"

section \<open>The outside world and the effects of a handler\<close>

text \<open>
  Library calls and the network are parameters. A result \<open>None\<close> means that the call
  raised. \<open>api_base\<close> is \<open>YANDEX_CLOUD_API\<close>. The calls of \<open>api_request\<close> and of
  \<open>broadcast_message\<close> in a handler are numbered in the order of the source:
  \<open>http w n\<close> is the exchange with the store at the \<open>n\<close>-th call of \<open>api_request\<close>
  (\<open>None\<close> when \<open>requests\<close>, \<open>raise_for_status\<close> or \<open>response.json\<close> raises), and
  \<open>send_raises w n\<close> tells on which entries \<open>ws.send\<close> raises during the \<open>n\<close>-th
  broadcast. \<open>json.dumps\<close> does not fail on the values above. The effects of a handler
  are listed in the order in which they happen; calls of \<open>logger\<close> are left out.
\<close>

record world =
  api_base :: pystr
  parse_qs :: "json \<Rightarrow> (pystr \<times> pystr list) list option"
  json_loads :: "pystr \<Rightarrow> json option"
  json_dumps :: "json \<Rightarrow> pystr"
  int_str :: "pystr \<Rightarrow> int option"
  http :: "nat \<Rightarrow> string \<Rightarrow> pystr \<Rightarrow> json \<Rightarrow> json option"
  send_raises :: "nat \<Rightarrow> key \<Rightarrow> conn \<Rightarrow> bool"

datatype effect =
    Serialize json
  | Delivered key conn pystr
  | SendFailed key conn
  | Closed conn string
  | ApiCall string pystr json

text \<open>
  \<open>api_request\<close> (lines 36-54): \<open>None\<close> when the base URL is not configured or when
  anything raises, else the decoded body of the response.
\<close>

definition api_request :: "world \<Rightarrow> nat \<Rightarrow> string \<Rightarrow> pystr \<Rightarrow> json \<Rightarrow> json" where
  "api_request w n method endpoint data =
     (if api_base w = [] then JNull
      else case http w n method (api_base w @ lit ''/'' @ endpoint) data of
             None \<Rightarrow> JNull
           | Some result \<Rightarrow> result)"

section \<open>\<open>broadcast_message\<close> (lines 215-229)\<close>

text \<open>
  The test of line 220, \<open>exclude_user and user_id == exclude_user\<close>, for a key
  \<open>user_id\<close> of the snapshot.
\<close>

definition excluded :: "json \<Rightarrow> key \<Rightarrow> bool" where
  "excluded exclude_user user_id \<longleftrightarrow> truthy exclude_user \<and> py_eq user_id exclude_user"

text \<open>
  The first loop (lines 219-226) over the snapshot \<open>list(active_connections.items())\<close>:
  it returns the list \<open>disconnected\<close> and the effects. \<open>json.dumps(message)\<close> is
  evaluated inside the loop, in the argument of \<open>ws.send\<close>; the bare \<open>except\<close> catches
  whatever \<open>ws.send\<close> raises.
\<close>

fun send_loop ::
  "(json \<Rightarrow> pystr) \<Rightarrow> (key \<Rightarrow> conn \<Rightarrow> bool) \<Rightarrow> json \<Rightarrow> json \<Rightarrow> registry \<Rightarrow> key list \<times> effect list"
where
  "send_loop dumps raises message exclude_user [] = ([], [])"
| "send_loop dumps raises message exclude_user ((user_id, ws) # items) =
     (if excluded exclude_user user_id
      then send_loop dumps raises message exclude_user items
      else
        (case send_loop dumps raises message exclude_user items of
           (disconnected, effs) \<Rightarrow>
             if raises user_id ws
             then (user_id # disconnected, Serialize message # SendFailed user_id ws # effs)
             else (disconnected,
                   Serialize message # Delivered user_id ws (dumps message) # effs)))"

text \<open>The second loop (lines 228-229).\<close>

fun pop_all :: "key list \<Rightarrow> registry \<Rightarrow> registry" where
  "pop_all [] r = r"
| "pop_all (user_id # disconnected) r = pop_all disconnected (dict_pop user_id r)"

text \<open>\<open>exclude_user\<close> is \<open>JNull\<close> when the argument is left at its default \<open>None\<close>.\<close>

definition broadcast_message ::
  "world \<Rightarrow> nat \<Rightarrow> json \<Rightarrow> json \<Rightarrow> registry \<Rightarrow> registry \<times> effect list"
where
  "broadcast_message w n message exclude_user r =
     (case send_loop (json_dumps w) (send_raises w n) message exclude_user r of
        (disconnected, effs) \<Rightarrow> (pop_all disconnected r, effs))"

section \<open>Identity extraction (lines 113-118 and 159-165)\<close>

text \<open>
  The body of the inner \<open>try\<close>, which both handlers contain word for word:
  \<open>parsed = parse_qs(init_data)\<close>,
  \<open>user_data = json.loads(parsed.get('user', ['{}'])[0])\<close>,
  \<open>user_id = user_data.get('id')\<close>.
  The result is \<open>None\<close> when one of the three lines raises, which the bare \<open>except\<close>
  catches. A missing \<open>user\<close> field is replaced by the text of the empty object, and a
  missing \<open>id\<close> gives Python's \<open>None\<close>: neither raises.
\<close>

definition extract_user_id :: "world \<Rightarrow> json \<Rightarrow> json option" where
  "extract_user_id w init_data =
     (case parse_qs w init_data of
        None \<Rightarrow> None
      | Some parsed \<Rightarrow>
          (case (case map_of parsed (lit ''user'') of None \<Rightarrow> [lit ''{}''] | Some vs \<Rightarrow> vs) of
             [] \<Rightarrow> None
           | v # _ \<Rightarrow>
               (case json_loads w v of
                  None \<Rightarrow> None
                | Some user_data \<Rightarrow> py_get user_data (lit ''id'') JNull)))"

section \<open>\<open>send_message\<close> (lines 106-142)\<close>

text \<open>
  The argument \<open>data\<close> is \<open>request.json\<close>. A response is a status code with a body;
  \<open>Inl\<close> is an exception that leaves the handler. The result carries the registry
  after the call and the effects in order.
\<close>

type_synonym response = "nat \<times> json"

definition error_body :: "string \<Rightarrow> json" where
  "error_body msg = JDict [(lit ''error'', JStr (lit msg))]"

definition new_message_event :: "json \<Rightarrow> json" where
  "new_message_event message =
     JDict [(lit ''type'', JStr (lit ''new_message'')), (lit ''message'', message)]"

definition send_message ::
  "world \<Rightarrow> json \<Rightarrow> registry \<Rightarrow> (exn + response) \<times> registry \<times> effect list"
where
  "send_message w data r =
     (case py_get data (lit ''init_data'') (JStr []) of
        None \<Rightarrow> (Inl AttributeError, r, [])
      | Some init_data \<Rightarrow>
          (case extract_user_id w init_data of
             None \<Rightarrow> (Inr (401, error_body ''Invalid init_data''), r, [])
           | Some user_id \<Rightarrow>
               (case py_get data (lit ''text'') (JStr []) of
                  Some (JStr raw) \<Rightarrow>
                    (let text = strip raw;
                         reply_to_id = (case py_get data (lit ''reply_to_id'') JNull of
                                          None \<Rightarrow> JNull | Some v \<Rightarrow> v)
                     in if text = [] \<or> length text > 1000
                        then (Inr (400, error_body ''Invalid message''), r, [])
                        else
                          (let payload = JDict [(lit ''user_id'', user_id),
                                                (lit ''text'', JStr text),
                                                (lit ''reply_to_id'', reply_to_id)];
                               message = api_request w 0 ''POST'' (lit ''send_message'') payload;
                               call = ApiCall ''POST'' (lit ''send_message'') payload
                           in if \<not> truthy message
                              then (Inr (500, error_body ''Failed to save message''), r, [call])
                              else
                                (case broadcast_message w 0 (new_message_event message)
                                        JNull r of
                                   (r', effs) \<Rightarrow>
                                     (Inr (200, JDict [(lit ''success'', JBool True),
                                                       (lit ''message'', message)]),
                                      r', call # effs))))
                | _ \<Rightarrow> (Inl AttributeError, r, []))))"

section \<open>\<open>get_messages\<close> (lines 89-104)\<close>

text \<open>
  \<open>args\<close> is \<open>request.args\<close>. \<open>int\<close> of the default \<open>30\<close> is \<open>30\<close>; \<open>int\<close> of a string
  that is no integer literal raises \<open>ValueError\<close>, and nothing in the handler catches it.
\<close>

definition get_messages ::
  "world \<Rightarrow> (pystr \<times> pystr) list \<Rightarrow> (exn + response) \<times> effect list"
where
  "get_messages w args =
     (case (case map_of args (lit ''limit'') of None \<Rightarrow> Some 30 | Some s \<Rightarrow> int_str w s) of
        None \<Rightarrow> (Inl ValueError, [])
      | Some limit \<Rightarrow>
          (case (case map_of args (lit ''before_id'') of
                   None \<Rightarrow> Some [(lit ''limit'', JInt limit)]
                 | Some before_id \<Rightarrow>
                     if before_id = [] then Some [(lit ''limit'', JInt limit)]
                     else (case int_str w before_id of
                             None \<Rightarrow> None
                           | Some b \<Rightarrow> Some [(lit ''limit'', JInt limit),
                                             (lit ''before_id'', JInt b)])) of
             None \<Rightarrow> (Inl ValueError, [])
           | Some params \<Rightarrow>
               (let result = api_request w 0 ''GET'' (lit ''messages'') (JDict params)
                in (Inr (200, if truthy result then result
                              else JDict [(lit ''messages'', JList []),
                                          (lit ''has_more'', JBool False)]),
                    [ApiCall ''GET'' (lit ''messages'') (JDict params)]))))"

section \<open>\<open>websocket\<close> (lines 151-213)\<close>

text \<open>\<open>request.args.get(k, d)\<close>: the values of the query string are strings.\<close>

definition args_get :: "(pystr \<times> pystr) list \<Rightarrow> pystr \<Rightarrow> pystr \<Rightarrow> pystr" where
  "args_get args k d = (case map_of args k of None \<Rightarrow> d | Some v \<Rightarrow> v)"

text \<open>
  The presence announcement \<open>if profile: broadcast_message({...}, exclude_user=user_id)\<close>
  of lines 177-182 and 203-208; \<open>None\<close> when \<open>profile.get\<close> raises \<open>AttributeError\<close>
  (a profile that is not a dict).
\<close>

definition announce ::
  "world \<Rightarrow> nat \<Rightarrow> string \<Rightarrow> json \<Rightarrow> json \<Rightarrow> registry \<Rightarrow> (registry \<times> effect list) option"
where
  "announce w n kind user_id profile r =
     (if truthy profile
      then (case py_get profile (lit ''nickname'') JNull of
              None \<Rightarrow> None
            | Some nickname \<Rightarrow>
                Some (broadcast_message w n
                        (JDict [(lit ''type'', JStr (lit kind)),
                                (lit ''user_id'', user_id),
                                (lit ''nickname'', nickname)]) user_id r))
      else Some (r, []))"

text \<open>The broadcast of \<open>len(active_connections)\<close> of lines 184-187 and 210-213.\<close>

definition online_count_event :: "int \<Rightarrow> json" where
  "online_count_event n =
     JDict [(lit ''type'', JStr (lit ''online_count'')), (lit ''count'', JInt n)]"

definition announce_count :: "world \<Rightarrow> nat \<Rightarrow> registry \<Rightarrow> registry \<times> effect list" where
  "announce_count w n r = broadcast_message w n (online_count_event (int (length r))) JNull r"

text \<open>
  The \<open>finally\<close> block (lines 197-213), with the value \<open>user_id\<close> has at that moment.
  The exception of the result is one that leaves the handler: \<open>in\<close> on an unhashable
  value, or \<open>profile.get\<close> on a profile that is not a dict.
\<close>

definition teardown :: "world \<Rightarrow> json \<Rightarrow> registry \<Rightarrow> exn option \<times> registry \<times> effect list" where
  "teardown w user_id r =
     (if \<not> truthy user_id then (None, r, [])
      else
        (case is_registered user_id r of
           Inl e \<Rightarrow> (Some e, r, [])
         | Inr False \<Rightarrow> (None, r, [])
         | Inr True \<Rightarrow>
             (case unregister user_id r of
                Inl e \<Rightarrow> (Some e, r, [])
              | Inr r1 \<Rightarrow>
                  (let data = JDict [(lit ''user_id'', user_id)];
                       profile = api_request w 1 ''GET'' (lit ''user/profile'') data;
                       call = ApiCall ''GET'' (lit ''user/profile'') data
                   in case announce w 2 ''user_left'' user_id profile r1 of
                        None \<Rightarrow> (Some AttributeError, r1, [call])
                      | Some (r2, effs2) \<Rightarrow>
                          (case announce_count w 3 r2 of
                             (r3, effs3) \<Rightarrow> (None, r3, call # effs2 @ effs3))))))"

text \<open>
  What \<open>ws.receive()\<close> does at each call: it returns a frame, returns \<open>None\<close>, or raises
  (the transport is closed). The loop of lines 189-192 is left at the first \<open>None\<close> or
  exception; when the frames run out the handler waits in \<open>receive\<close> and has not returned.
\<close>

datatype inbound = Frame | NoData | RecvRaises

fun receive_loop :: "inbound list \<Rightarrow> bool" where
  "receive_loop [] = False"
| "receive_loop (Frame # rest) = receive_loop rest"
| "receive_loop (NoData # rest) = True"
| "receive_loop (RecvRaises # rest) = True"

datatype ws_result = WsReturned | WsRaised exn | WsWaiting

text \<open>
  Leaving the \<open>try\<close> statement through \<open>finally\<close>, after the effects \<open>effs\<close>. An
  exception raised in the body was caught by \<open>except Exception\<close> at line 194 before.
\<close>

definition finish ::
  "world \<Rightarrow> json \<Rightarrow> registry \<Rightarrow> effect list \<Rightarrow> ws_result \<times> registry \<times> effect list"
where
  "finish w user_id r effs =
     (case teardown w user_id r of
        (None, r', effs') \<Rightarrow> (WsReturned, r', effs @ effs')
      | (Some e, r', effs') \<Rightarrow> (WsRaised e, r', effs @ effs'))"

definition websocket ::
  "world \<Rightarrow> conn \<Rightarrow> (pystr \<times> pystr) list \<Rightarrow> inbound list \<Rightarrow> registry
     \<Rightarrow> ws_result \<times> registry \<times> effect list"
where
  "websocket w ws args frames r =
     (let init_data = args_get args (lit ''init_data'') []
      in case extract_user_id w (JStr init_data) of
           None \<Rightarrow> finish w JNull r [Closed ws ''Invalid init_data'']
         | Some user_id \<Rightarrow>
             if \<not> truthy user_id then finish w user_id r [Closed ws ''No user_id'']
             else
               (case register user_id ws r of
                  Inl e \<Rightarrow> finish w user_id r []
                | Inr r1 \<Rightarrow>
                    (let data = JDict [(lit ''user_id'', user_id)];
                         profile = api_request w 0 ''GET'' (lit ''user/profile'') data;
                         call = ApiCall ''GET'' (lit ''user/profile'') data
                     in case announce w 0 ''user_joined'' user_id profile r1 of
                          None \<Rightarrow> finish w user_id r1 [call]
                        | Some (r2, effs2) \<Rightarrow>
                            (case announce_count w 1 r2 of
                               (r3, effs3) \<Rightarrow>
                                 if receive_loop frames
                                 then finish w user_id r3 (call # effs2 @ effs3)
                                 else (WsWaiting, r3, call # effs2 @ effs3)))))"

section \<open>Reachable registries\<close>

text \<open>
  The registry starts empty (line 32) and is written at three places only: the
  assignment of line 171, behind the test \<open>if not user_id\<close> of line 167, the \<open>del\<close> of
  line 199 and the \<open>pop\<close> of line 229.
\<close>

inductive reachable :: "registry \<Rightarrow> bool" where
  initial: "reachable []"
| registered: "reachable r \<Longrightarrow> truthy user_id \<Longrightarrow> register user_id ws r = Inr r' \<Longrightarrow> reachable r'"
| popped: "reachable r \<Longrightarrow> reachable (dict_pop k r)"

section \<open>Notions used to state the properties\<close>

text \<open>
  The shape of an identity token, read off the results of \<open>parse_qs\<close> and
  \<open>json.loads\<close>: the string is not decodable, the \<open>user\<close> field is absent or has no
  value, its payload is not JSON or is JSON but not an object, the object has no \<open>id\<close>,
  or it has one.
\<close>

datatype token_shape =
  Undecodable | UserAbsent | UserEmpty | NotJson | NotObject | IdMissing | IdPresent json

definition token_shape :: "world \<Rightarrow> json \<Rightarrow> token_shape" where
  "token_shape w init_data =
     (case parse_qs w init_data of
        None \<Rightarrow> Undecodable
      | Some parsed \<Rightarrow>
          (case map_of parsed (lit ''user'') of
             None \<Rightarrow> UserAbsent
           | Some [] \<Rightarrow> UserEmpty
           | Some (v # _) \<Rightarrow>
               (case json_loads w v of
                  None \<Rightarrow> NotJson
                | Some (JDict kvs) \<Rightarrow>
                    (case map_of kvs (lit ''id'') of
                       None \<Rightarrow> IdMissing
                     | Some i \<Rightarrow> IdPresent i)
                | Some _ \<Rightarrow> NotObject)))"

text \<open>The number of evaluations of \<open>json.dumps\<close> among the effects.\<close>

fun is_serialize :: "effect \<Rightarrow> bool" where
  "is_serialize (Serialize m) = True"
| "is_serialize _ = False"

definition serializations :: "effect list \<Rightarrow> nat" where
  "serializations effs = length (filter is_serialize effs)"

section \<open>A sample world\<close>

text \<open>
  Tables of what the library functions return on the arguments used in the examples
  below: \<open>parse_qs\<close> on seven query strings and on the empty string, \<open>json.loads\<close> on
  the payloads of these tokens, \<open>json.dumps\<close> on three events, \<open>int\<close> on the strings
  \<open>30\<close>, \<open>7\<close> and \<open>abc\<close>. No other argument is used. The message store answers a
  \<open>POST\<close> with a message object and has no profile; \<open>ws.send\<close> raises on connection
  \<open>13\<close>.
\<close>

definition token_abc :: pystr where
  "token_abc = lit ''user=%7B%22id%22%3A%22abc%22%7D''"

definition token_zero :: pystr where
  "token_zero = lit ''user=%7B%22id%22%3A0%7D''"

definition token_42 :: pystr where
  "token_42 = lit ''user=%7B%22id%22%3A42%7D''"

definition token_garbled :: pystr where
  "token_garbled = lit ''user=garbled''"

definition token_no_user :: pystr where
  "token_no_user = lit ''auth_date=1''"

definition token_nan :: pystr where
  "token_nan = lit ''user=%7B%22id%22%3ANaN%7D''"

definition token_list :: pystr where
  "token_list = lit ''user=%7B%22id%22%3A%5B1%5D%7D''"

definition sample_parse_qs :: "json \<Rightarrow> (pystr \<times> pystr list) list option" where
  \<open>sample_parse_qs q =
     (if q = JStr token_abc then Some [(lit ''user'', [lit ''{"id":"abc"}''])]
      else if q = JStr token_zero then Some [(lit ''user'', [lit ''{"id":0}''])]
      else if q = JStr token_42 then Some [(lit ''user'', [lit ''{"id":42}''])]
      else if q = JStr token_garbled then Some [(lit ''user'', [lit ''garbled''])]
      else if q = JStr token_no_user then Some [(lit ''auth_date'', [lit ''1''])]
      else if q = JStr token_nan then Some [(lit ''user'', [lit ''{"id":NaN}''])]
      else if q = JStr token_list then Some [(lit ''user'', [lit ''{"id":[1]}''])]
      else if q = JStr [] then Some []
      else None)\<close>

definition sample_json_loads :: "pystr \<Rightarrow> json option" where
  \<open>sample_json_loads s =
     (if s = lit ''{}'' then Some (JDict [])
      else if s = lit ''{"id":"abc"}'' then Some (JDict [(lit ''id'', JStr (lit ''abc''))])
      else if s = lit ''{"id":0}'' then Some (JDict [(lit ''id'', JInt 0)])
      else if s = lit ''{"id":42}'' then Some (JDict [(lit ''id'', JInt 42)])
      else if s = lit ''{"id":NaN}'' then Some (JDict [(lit ''id'', JFloat NaN)])
      else if s = lit ''{"id":[1]}'' then Some (JDict [(lit ''id'', JList [JInt 1])])
      else None)\<close>

definition sample_message :: json where
  "sample_message = JDict [(lit ''id'', JInt 1)]"

definition sample_json_dumps :: "json \<Rightarrow> pystr" where
  \<open>sample_json_dumps m =
     (if m = online_count_event 1 then lit ''{"type": "online_count", "count": 1}''
      else if m = online_count_event 2 then lit ''{"type": "online_count", "count": 2}''
      else if m = new_message_event sample_message
        then lit ''{"type": "new_message", "message": {"id": 1}}''
      else [])\<close>

definition sample_int_str :: "pystr \<Rightarrow> int option" where
  "sample_int_str s =
     (if s = lit ''30'' then Some 30
      else if s = lit ''7'' then Some 7
      else None)"

definition sample_http :: "nat \<Rightarrow> string \<Rightarrow> pystr \<Rightarrow> json \<Rightarrow> json option" where
  "sample_http n method url data = (if method = ''POST'' then Some sample_message else None)"

definition sample_world :: world where
  "sample_world =
     \<lparr>api_base = lit ''http://store'',
      parse_qs = sample_parse_qs,
      json_loads = sample_json_loads,
      json_dumps = sample_json_dumps,
      int_str = sample_int_str,
      http = sample_http,
      send_raises = (\<lambda>n k ws. ws = 13)\<rparr>"

section \<open>Properties of the dict operations\<close>

lemma keys_dict_set: "set (map fst (dict_set k ws r)) = insert k (set (map fst r))"
  by (induction k ws r rule: dict_set.induct) auto

lemma distinct_dict_set: "distinct (map fst r) \<Longrightarrow> distinct (map fst (dict_set k ws r))"
  by (induction k ws r rule: dict_set.induct) (auto simp: keys_dict_set simp del: set_map)

lemma length_dict_set:
  "length (dict_set k ws r) = (if dict_contains k r then length r else Suc (length r))"
  by (induction k ws r rule: dict_set.induct) (auto simp: dict_contains_def)

lemma map_of_dict_set: "map_of (dict_set k ws r) = (map_of r)(k \<mapsto> ws)"
  by (induction k ws r rule: dict_set.induct) (auto simp: fun_eq_iff)

lemma order_dict_set:
  "map fst (dict_set k ws r) = (if dict_contains k r then map fst r else map fst r @ [k])"
  by (induction k ws r rule: dict_set.induct) (auto simp: dict_contains_def)

lemma dict_pop_absent: "\<not> dict_contains k r \<Longrightarrow> dict_pop k r = r"
  by (induction r) (auto simp: dict_contains_def dict_pop_def)

lemma distinct_dict_pop: "distinct (map fst r) \<Longrightarrow> distinct (map fst (dict_pop k r))"
  by (simp add: dict_pop_def distinct_map_filter)

lemma keys_dict_pop: "set (map fst (dict_pop k r)) = set (map fst r) - {k}"
  by (auto simp: dict_pop_def)

lemma hash_key_truthy: "hash_key v = Some k \<Longrightarrow> truthy_key k = truthy v"
proof (cases v)
  case (JFloat f)
  assume "hash_key v = Some k"
  with JFloat show ?thesis
    by (cases f) (auto split: if_splits)
qed (auto split: if_splits)

lemma register_Inr:
  "register user_id ws r = Inr r' \<longleftrightarrow> (\<exists>k. hash_key user_id = Some k \<and> r' = dict_set k ws r)"
  by (auto simp: register_def split: option.splits)

lemma reachable_distinct: "reachable r \<Longrightarrow> distinct (map fst r)"
  by (induction rule: reachable.induct)
     (auto simp: distinct_dict_set distinct_dict_pop register_Inr simp del: set_map)

lemma reachable_truthy: "reachable r \<Longrightarrow> k \<in> set (map fst r) \<Longrightarrow> truthy_key k"
  by (induction arbitrary: k rule: reachable.induct)
     (auto simp: keys_dict_set keys_dict_pop register_Inr hash_key_truthy simp del: set_map)

lemma count_key_distinct:
  "distinct (map fst r) \<Longrightarrow> length (filter (\<lambda>e. fst e = k) r) = (if dict_contains k r then 1 else 0)"
  by (induction r) (auto simp: dict_contains_def)

lemma pop_all_filter: "pop_all ks r = filter (\<lambda>e. fst e \<notin> set ks) r"
  by (induction ks arbitrary: r) (auto simp: dict_pop_def intro: filter_cong)

lemma send_loop_disconnected:
  "fst (send_loop d f m U r) = map fst (filter (\<lambda>e. \<not> excluded U (fst e) \<and> f (fst e) (snd e)) r)"
  by (induction r) (auto split: prod.splits)

lemma send_loop_effects:
  "snd (send_loop d f m U r) =
     concat (map (\<lambda>e. [Serialize m, if f (fst e) (snd e) then SendFailed (fst e) (snd e)
                                     else Delivered (fst e) (snd e) (d m)])
                 (filter (\<lambda>e. \<not> excluded U (fst e)) r))"
  by (induction r) (auto split: prod.splits)

section \<open>Properties of the broadcast\<close>

lemma delivered_iff:
  "Delivered k c p \<in> set (snd (send_loop d f m U r)) \<longleftrightarrow>
     (k, c) \<in> set r \<and> \<not> excluded U k \<and> \<not> f k c \<and> p = d m"
  by (auto simp: send_loop_effects split: if_splits)

lemma send_failed_iff:
  "SendFailed k c \<in> set (snd (send_loop d f m U r)) \<longleftrightarrow>
     (k, c) \<in> set r \<and> \<not> excluded U k \<and> f k c"
  by (auto simp: send_loop_effects split: if_splits)

lemma serialize_iff:
  "Serialize m' \<in> set (snd (send_loop d f m U r)) \<longleftrightarrow>
     m' = m \<and> (\<exists>e \<in> set r. \<not> excluded U (fst e))"
  by (force simp: send_loop_effects split: if_splits)

lemma serializations_send_loop:
  "serializations (snd (send_loop d f m U r)) =
     length (filter (\<lambda>e. \<not> excluded U (fst e)) r)"
  unfolding send_loop_effects serializations_def by (induction r) auto

lemma disconnected_iff:
  "k \<in> set (fst (send_loop d f m U r)) \<longleftrightarrow>
     (\<exists>c. (k, c) \<in> set r \<and> \<not> excluded U k \<and> f k c)"
  by (force simp: send_loop_disconnected)

lemma broadcast_registry:
  "fst (broadcast_message w n m U r) =
     filter (\<lambda>e. fst e \<notin> set (fst (send_loop (json_dumps w) (send_raises w n) m U r))) r"
  by (simp add: broadcast_message_def pop_all_filter split: prod.splits)

lemma broadcast_effects:
  "snd (broadcast_message w n m U r) = snd (send_loop (json_dumps w) (send_raises w n) m U r)"
  by (simp add: broadcast_message_def split: prod.splits)

section \<open>Properties of the handlers\<close>

lemma extract_by_shape:
  "extract_user_id w tok =
     (case token_shape w tok of
        Undecodable \<Rightarrow> None
      | UserAbsent \<Rightarrow>
          (case json_loads w (lit ''{}'') of
             None \<Rightarrow> None
           | Some user_data \<Rightarrow> py_get user_data (lit ''id'') JNull)
      | UserEmpty \<Rightarrow> None
      | NotJson \<Rightarrow> None
      | NotObject \<Rightarrow> None
      | IdMissing \<Rightarrow> Some JNull
      | IdPresent v \<Rightarrow> Some v)"
  by (simp add: extract_user_id_def token_shape_def
      split: option.splits list.splits json.splits)

lemma teardown_falsy: "\<not> truthy user_id \<Longrightarrow> teardown w user_id r = (None, r, [])"
  by (simp add: teardown_def)

lemma finish_falsy: "\<not> truthy user_id \<Longrightarrow> finish w user_id r effs = (WsReturned, r, effs)"
  by (simp add: finish_def teardown_falsy)

lemma websocket_extract_fails:
  "extract_user_id w (JStr (args_get args (lit ''init_data'') [])) = None \<Longrightarrow>
     websocket w ws args frames r = (WsReturned, r, [Closed ws ''Invalid init_data''])"
  by (simp add: websocket_def finish_falsy)

lemma websocket_falsy:
  "extract_user_id w (JStr (args_get args (lit ''init_data'') [])) = Some user_id \<Longrightarrow>
   \<not> truthy user_id \<Longrightarrow>
     websocket w ws args frames r = (WsReturned, r, [Closed ws ''No user_id''])"
  by (simp add: websocket_def finish_falsy)

lemma send_message_extract_fails:
  "py_get data (lit ''init_data'') (JStr []) = Some init_data \<Longrightarrow>
   extract_user_id w init_data = None \<Longrightarrow>
     send_message w data r = (Inr (401, error_body ''Invalid init_data''), r, [])"
  by (simp add: send_message_def)

text \<open>
  The handlers and \<open>broadcast_message\<close> take a reachable registry to a reachable one:
  \<open>reachable\<close> covers every state the registry is left in.
\<close>

lemma pop_all_reachable: "reachable r \<Longrightarrow> reachable (pop_all ks r)"
  by (induction ks arbitrary: r) (auto intro: reachable.popped)

lemma broadcast_reachable:
  "reachable r \<Longrightarrow> broadcast_message w n m U r = (r', effs) \<Longrightarrow> reachable r'"
  by (auto simp: broadcast_message_def pop_all_reachable split: prod.splits)

lemma announce_reachable:
  "reachable r \<Longrightarrow> announce w n kind user_id profile r = Some (r', effs) \<Longrightarrow> reachable r'"
  by (auto simp: announce_def split: if_splits option.splits intro: broadcast_reachable)

lemma announce_count_reachable:
  "reachable r \<Longrightarrow> announce_count w n r = (r', effs) \<Longrightarrow> reachable r'"
  by (auto simp: announce_count_def intro: broadcast_reachable)

lemma teardown_reachable:
  assumes "reachable r" and "teardown w user_id r = (e, r', effs)"
  shows "reachable r'"
proof (cases "truthy user_id \<and> is_registered user_id r = Inr True")
  case False
  with assms show ?thesis
    by (auto simp: teardown_def split: sum.splits bool.splits if_splits)
next
  case True
  then obtain k where k: "hash_key user_id = Some k" and present: "dict_contains k r"
    by (auto simp: is_registered_def split: option.splits)
  let ?p = "api_request w 1 ''GET'' (lit ''user/profile'') (JDict [(lit ''user_id'', user_id)])"
  have un: "unregister user_id r = Inr (dict_pop k r)"
    using k present by (simp add: unregister_def)
  have r1: "reachable (dict_pop k r)"
    using assms(1) by (rule reachable.popped)
  show ?thesis
  proof (cases "announce w 2 ''user_left'' user_id ?p (dict_pop k r)")
    case None
    with assms True un r1 show ?thesis
      by (simp add: teardown_def)
  next
    case inner: (Some a)
    obtain r2 effs2 where a: "a = (r2, effs2)" by (cases a)
    have r2: "reachable r2"
      using r1 inner a by (auto intro: announce_reachable)
    obtain r3 effs3 where c: "announce_count w 3 r2 = (r3, effs3)"
      by (cases "announce_count w 3 r2")
    have "reachable r3"
      using r2 c by (rule announce_count_reachable)
    with assms True un inner a c show ?thesis
      by (simp add: teardown_def)
  qed
qed

lemma finish_reachable:
  "reachable r \<Longrightarrow> finish w user_id r effs0 = (res, r', effs) \<Longrightarrow> reachable r'"
  by (auto simp: finish_def split: prod.splits option.splits dest: teardown_reachable)

lemma websocket_reachable:
  assumes "reachable r" and "websocket w ws args frames r = (res, r', effs)"
  shows "reachable r'"
proof (cases "extract_user_id w (JStr (args_get args (lit ''init_data'') []))")
  case None
  with assms show ?thesis
    by (auto simp: websocket_def dest: finish_reachable)
next
  case (Some user_id)
  show ?thesis
  proof (cases "truthy user_id")
    case False
    with assms Some show ?thesis
      by (auto simp: websocket_def dest: finish_reachable)
  next
    case True
    show ?thesis
    proof (cases "register user_id ws r")
      case (Inl e)
      with assms Some True show ?thesis
        by (auto simp: websocket_def dest: finish_reachable)
    next
      case (Inr r1)
      let ?p = "api_request w 0 ''GET'' (lit ''user/profile'') (JDict [(lit ''user_id'', user_id)])"
      have r1: "reachable r1"
        using assms(1) True Inr by (rule reachable.registered)
      show ?thesis
      proof (cases "announce w 0 ''user_joined'' user_id ?p r1")
        case None
        with assms Some True Inr r1 show ?thesis
          by (auto simp: websocket_def dest: finish_reachable)
      next
        case inner: (Some a)
        obtain r2 effs2 where a: "a = (r2, effs2)" by (cases a)
        have r2: "reachable r2"
          using r1 inner a by (auto intro: announce_reachable)
        obtain r3 effs3 where c: "announce_count w 1 r2 = (r3, effs3)"
          by (cases "announce_count w 1 r2")
        have r3: "reachable r3"
          using r2 c by (rule announce_count_reachable)
        with assms Some True Inr inner a c show ?thesis
          by (auto simp: websocket_def Let_def split: if_splits dest: finish_reachable)
      qed
    qed
  qed
qed

lemma send_message_reachable:
  "reachable r \<Longrightarrow> send_message w data r = (res, r', effs) \<Longrightarrow> reachable r'"
  by (auto simp: send_message_def Let_def
      split: if_splits option.splits prod.splits json.splits
      dest: broadcast_reachable)

text \<open>
  \<open>send_message\<close> has no test of \<open>user_id\<close> like the one at line 167: a token without
  \<open>user\<close> field gives \<open>user_id = None\<close>, and the message is stored under it.
\<close>

lemma send_message_without_user:
  "send_message sample_world
       (JDict [(lit ''init_data'', JStr token_no_user), (lit ''text'', JStr (lit ''hi''))]) [] =
     (Inr (200, JDict [(lit ''success'', JBool True), (lit ''message'', sample_message)]), [],
      [ApiCall ''POST'' (lit ''send_message'')
         (JDict [(lit ''user_id'', JNull), (lit ''text'', JStr (lit ''hi'')),
                 (lit ''reply_to_id'', JNull)])])"
  by (simp add: send_message_def extract_user_id_def sample_world_def sample_parse_qs_def
      sample_json_loads_def sample_http_def token_no_user_def token_abc_def token_zero_def
      token_42_def token_garbled_def api_request_def broadcast_message_def strip_def
      isspace_def Let_def sample_message_def)

section \<open>The registry\<close>

text \<open>
  Claim C8, as stated: unregistering a user id that has no entry raises no error. It
  does for an id that cannot be a key: with the payload \<open>{"id":[1]}\<close> the list is truthy
  and has no entry, and the test \<open>user_id in active_connections\<close> of line 198 raises
  \<open>TypeError\<close> out of the \<open>finally\<close> block. The registry stays as it was.
\<close>

theorem unregister_unhashable_counterexample:
  "token_shape sample_world (JStr token_list) = IdPresent (JList [JInt 1]) \<and>
   is_registered (JList [JInt 1]) [(KInt 2, 4)] = Inl TypeError \<and>
   teardown sample_world (JList [JInt 1]) [(KInt 2, 4)] = (Some TypeError, [(KInt 2, 4)], []) \<and>
   websocket sample_world 7 [(lit ''init_data'', token_list)] [] [(KInt 2, 4)] =
     (WsRaised TypeError, [(KInt 2, 4)], [])"
  by (simp add: token_shape_def websocket_def args_get_def extract_user_id_def finish_def
      teardown_def is_registered_def register_def sample_world_def sample_parse_qs_def
      sample_json_loads_def token_list_def token_abc_def token_zero_def token_42_def
      token_garbled_def token_no_user_def token_nan_def)

text \<open>
  Claim C8, amended. Unregistering a hashable user id (\<open>None\<close>, a boolean, a number or
  a string) that has no entry is a no-op. The source removes an entry at two places:
  \<open>pop(user_id, None)\<close> of line 229, and the \<open>del\<close> of line 199 behind the test
  \<open>user_id and user_id in active_connections\<close>. When the key is absent, \<open>pop\<close> returns
  the registry as it was, of the same size, and the whole \<open>finally\<close> block of the
  websocket handler returns without an exception, leaves the registry as it was and has
  no effect; the same holds for every falsy id. For a truthy id that is unhashable (a
  list or an object) the membership test raises \<open>TypeError\<close>, and the registry is left
  as it was.
\<close>

theorem unregister_absent_noop:
  "(\<not> dict_contains k r \<longrightarrow> dict_pop k r = r \<and> length (dict_pop k r) = length r) \<and>
   (hash_key user_id = Some k \<and> \<not> dict_contains k r \<longrightarrow>
      teardown w user_id r = (None, r, [])) \<and>
   (\<not> truthy user_id \<longrightarrow> teardown w user_id r = (None, r, [])) \<and>
   (truthy user_id \<and> hash_key user_id = None \<longrightarrow>
      teardown w user_id r = (Some TypeError, r, []))"
  by (simp add: dict_pop_absent teardown_def is_registered_def)

theorem unregister_absent_noop_witness:
  "hash_key (JInt 1) = Some (KInt 1) \<and>
   \<not> dict_contains (KInt 1) [(KInt 2, 7)] \<and>
   dict_pop (KInt 1) [(KInt 2, 7)] = [(KInt 2, 7)] \<and>
   teardown sample_world (JInt 1) [(KInt 2, 7)] = (None, [(KInt 2, 7)], []) \<and>
   teardown sample_world (JInt 0) [(KInt 2, 7)] = (None, [(KInt 2, 7)], []) \<and>
   teardown sample_world (JDict [(lit ''a'', JNull)]) [(KInt 2, 7)] =
     (Some TypeError, [(KInt 2, 7)], [])"
proof -
  have absent: "\<not> dict_contains (KInt 1) [(KInt 2, 7)]"
    by (simp add: dict_contains_def)
  from unregister_absent_noop [of "KInt 1" "[(KInt 2, 7)]" "JInt 1" sample_world]
    unregister_absent_noop [of "KInt 1" "[(KInt 2, 7)]" "JInt 0" sample_world]
    unregister_absent_noop
      [of "KInt 1" "[(KInt 2, 7)]" "JDict [(lit ''a'', JNull)]" sample_world]
  show ?thesis using absent by simp
qed

text \<open>
  Claim C4, as stated: registering never errors. It does for an id that cannot be a
  key: with the payload \<open>{"id":[1]}\<close> the list passes the test of line 167, and the
  assignment of line 171 raises \<open>TypeError\<close>.
\<close>

theorem register_unhashable_counterexample:
  "extract_user_id sample_world (JStr token_list) = Some (JList [JInt 1]) \<and>
   truthy (JList [JInt 1]) \<and>
   register (JList [JInt 1]) 7 [(KInt 2, 4)] = Inl TypeError"
  by (simp add: extract_user_id_def register_def sample_world_def sample_parse_qs_def
      sample_json_loads_def token_list_def token_abc_def token_zero_def token_42_def
      token_garbled_def token_no_user_def token_nan_def)

text \<open>
  Claim C4, amended. Every reachable registry holds at most one entry per user id (the
  keys of its items are distinct). Registering is the assignment of line 171. With a
  hashable user id it does not fail: it inserts or overwrites the entry of that user
  id, in place or at the end, and leaves the entry of every other user id as it was;
  after registering the same user id twice in succession there is exactly one entry for
  it and it holds the later connection; and one registration changes the size of the
  registry by 0 or by 1. With an unhashable id (a list or an object) the assignment
  raises \<open>TypeError\<close> before the registry is touched.
\<close>

theorem registry_one_entry_per_user:
  "reachable r \<Longrightarrow>
     distinct (map fst r) \<and>
     (hash_key user_id = Some k \<longrightarrow> register user_id ws r = Inr (dict_set k ws r)) \<and>
     (hash_key user_id = None \<longrightarrow> register user_id ws r = Inl TypeError) \<and>
     (\<forall>k'. dict_lookup (dict_set k ws r) k' =
             (if k' = k then Some ws else dict_lookup r k')) \<and>
     map fst (dict_set k ws r) = (if dict_contains k r then map fst r else map fst r @ [k]) \<and>
     length (filter (\<lambda>e. fst e = k) (dict_set k ws2 (dict_set k ws1 r))) = 1 \<and>
     dict_lookup (dict_set k ws2 (dict_set k ws1 r)) k = Some ws2 \<and>
     (length (dict_set k ws r) = length r \<or> length (dict_set k ws r) = length r + 1)"
  by (simp add: reachable_distinct distinct_dict_set count_key_distinct dict_contains_def
      keys_dict_set dict_lookup_def map_of_dict_set length_dict_set order_dict_set
      register_def del: set_map)

theorem registry_one_entry_per_user_witness:
  "reachable [(KInt 1, 4)] \<and>
   register (JInt 1) 9 [(KInt 1, 4)] = Inr [(KInt 1, 9)] \<and>
   register (JBool True) 9 [(KInt 1, 4)] = Inr [(KInt 1, 9)] \<and>
   register (JDict [(lit ''a'', JNull)]) 9 [(KInt 1, 4)] = Inl TypeError \<and>
   dict_lookup (dict_set (KInt 2) 5 [(KInt 1, 4)]) (KInt 1) = Some 4 \<and>
   length (filter (\<lambda>e. fst e = KInt 1)
             (dict_set (KInt 1) 9 (dict_set (KInt 1) 5 [(KInt 1, 4)]))) = 1 \<and>
   dict_lookup (dict_set (KInt 1) 9 (dict_set (KInt 1) 5 [(KInt 1, 4)])) (KInt 1) = Some 9 \<and>
   length (dict_set (KInt 2) 5 [(KInt 1, 4)]) = length [(KInt 1, 4)] + 1"
proof -
  have one: "register (JInt 1) 4 [] = Inr [(KInt 1, 4)]"
    by (simp add: register_def)
  have reach: "reachable [(KInt 1, 4)]"
    using reachable.initial _ one by (rule reachable.registered) simp
  from registry_one_entry_per_user
         [OF reach, where user_id = "JInt 1" and k = "KInt 1" and ws = 9
            and ?ws2.0 = 9 and ?ws1.0 = 5]
    registry_one_entry_per_user
         [OF reach, where user_id = "JBool True" and k = "KInt 1" and ws = 9]
    registry_one_entry_per_user
         [OF reach, where user_id = "JInt 2" and k = "KInt 2" and ws = 5]
    registry_one_entry_per_user
         [OF reach, where user_id = "JDict [(lit ''a'', JNull)]" and k = "KInt 2" and ws = 9]
  show ?thesis using reach by (simp add: dict_lookup_def)
qed

section \<open>Broadcast\<close>

text \<open>
  Claim C3. When \<open>ws.send\<close> raises on a connection during a broadcast, the bare
  \<open>except\<close> of line 225 catches it: \<open>broadcast_message\<close> returns, the send was still
  attempted on every entry of the snapshot that is not excluded (delivered where
  \<open>ws.send\<close> returned), and the key of the failed connection is absent from the
  registry that the second loop leaves: it removes the keys on which a send failed and
  no other entry.
\<close>

theorem broadcast_isolates_failure:
  assumes "(k, c) \<in> set r" and "\<not> excluded U k" and "send_raises w n k c"
  shows "\<not> dict_contains k (fst (broadcast_message w n m U r)) \<and>
         (\<forall>(k', c') \<in> set r. \<not> excluded U k' \<longrightarrow>
            (if send_raises w n k' c' then SendFailed k' c'
             else Delivered k' c' (json_dumps w m)) \<in> set (snd (broadcast_message w n m U r))) \<and>
         fst (broadcast_message w n m U r) =
           filter (\<lambda>e. \<not> (\<exists>c'. (fst e, c') \<in> set r \<and> \<not> excluded U (fst e) \<and>
                               send_raises w n (fst e) c')) r"
proof -
  have "k \<in> set (fst (send_loop (json_dumps w) (send_raises w n) m U r))"
    using assms by (auto simp: disconnected_iff)
  then have gone: "\<not> dict_contains k (fst (broadcast_message w n m U r))"
    by (auto simp: broadcast_registry dict_contains_def)
  have kept: "fst (broadcast_message w n m U r) =
           filter (\<lambda>e. \<not> (\<exists>c'. (fst e, c') \<in> set r \<and> \<not> excluded U (fst e) \<and>
                               send_raises w n (fst e) c')) r"
    by (simp add: broadcast_registry disconnected_iff)
  have sent: "\<forall>(k', c') \<in> set r. \<not> excluded U k' \<longrightarrow>
            (if send_raises w n k' c' then SendFailed k' c'
             else Delivered k' c' (json_dumps w m)) \<in> set (snd (broadcast_message w n m U r))"
    by (auto simp: broadcast_effects delivered_iff send_failed_iff)
  from gone sent kept show ?thesis
    by (intro conjI)
qed

theorem broadcast_isolates_failure_witness:
  "(KInt 2, 13::conn) \<in> set [(KInt 1, 4), (KInt 2, 13), (KInt 3, 6)] \<and>
   send_raises sample_world 0 (KInt 2) 13 \<and>
   broadcast_message sample_world 0 (online_count_event 2) JNull
       [(KInt 1, 4), (KInt 2, 13), (KInt 3, 6)] =
     ([(KInt 1, 4), (KInt 3, 6)],
      [Serialize (online_count_event 2),
       Delivered (KInt 1) 4 (sample_json_dumps (online_count_event 2)),
       Serialize (online_count_event 2),
       SendFailed (KInt 2) 13,
       Serialize (online_count_event 2),
       Delivered (KInt 3) 6 (sample_json_dumps (online_count_event 2))]) \<and>
   \<not> dict_contains (KInt 2)
       (fst (broadcast_message sample_world 0 (online_count_event 2) JNull
              [(KInt 1, 4), (KInt 2, 13), (KInt 3, 6)]))"
proof -
  have entry: "(KInt 2, 13::conn) \<in> set [(KInt 1, 4), (KInt 2, 13), (KInt 3, 6)]"
    by simp
  have included: "\<not> excluded JNull (KInt 2)"
    by (simp add: excluded_def)
  have fails: "send_raises sample_world 0 (KInt 2) 13"
    by (simp add: sample_world_def)
  have run: "broadcast_message sample_world 0 (online_count_event 2) JNull
       [(KInt 1, 4), (KInt 2, 13), (KInt 3, 6)] =
     ([(KInt 1, 4), (KInt 3, 6)],
      [Serialize (online_count_event 2),
       Delivered (KInt 1) 4 (sample_json_dumps (online_count_event 2)),
       Serialize (online_count_event 2),
       SendFailed (KInt 2) 13,
       Serialize (online_count_event 2),
       Delivered (KInt 3) 6 (sample_json_dumps (online_count_event 2))])"
    by (simp add: broadcast_message_def sample_world_def dict_pop_def excluded_def)
  from broadcast_isolates_failure
         [OF entry included fails, of "online_count_event 2", THEN conjunct1]
  show ?thesis using entry fails run by (simp only: simp_thms)
qed

text \<open>
  Claim C2, as stated: \<open>broadcast_message(event, exclude_user=U)\<close> sends to no
  connection whose user id is \<open>U\<close>. It does when \<open>U\<close> is the float \<open>NaN\<close>: the payload
  \<open>{"id":NaN}\<close> gives a truthy id, which line 171 registers, and at line 220
  \<open>user_id == exclude_user\<close> is false for \<open>NaN\<close>, so the entry of the excluded user is
  not skipped.
\<close>

theorem broadcast_nan_not_excluded_counterexample:
  "extract_user_id sample_world (JStr token_nan) = Some (JFloat NaN) \<and>
   truthy (JFloat NaN) \<and>
   register (JFloat NaN) 7 [] = Inr [(KNaN, 7)] \<and>
   broadcast_message sample_world 0 (online_count_event 1) (JFloat NaN) [(KNaN, 7)] =
     ([(KNaN, 7)],
      [Serialize (online_count_event 1),
       Delivered KNaN 7 (sample_json_dumps (online_count_event 1))])"
  by (simp add: extract_user_id_def register_def broadcast_message_def excluded_def py_eq_def
      sample_world_def sample_parse_qs_def sample_json_loads_def token_nan_def token_abc_def
      token_zero_def token_42_def token_garbled_def token_no_user_def)

text \<open>
  Claim C2, amended. In every reachable registry, \<open>broadcast_message(event,
  exclude_user=U)\<close> with \<open>U\<close> other than the float \<open>NaN\<close> calls \<open>ws.send\<close> with the
  serialized event on every entry whose user id is not \<open>U\<close> (the event is delivered
  where \<open>ws.send\<close> returns) and on no entry whose user id is \<open>U\<close>; when \<open>exclude_user\<close>
  is left unset (\<open>None\<close>) it does so on every entry, the sender's included. With
  \<open>exclude_user\<close> the float \<open>NaN\<close> no entry is skipped.
\<close>

theorem broadcast_recipients:
  assumes "reachable r"
  shows "(hash_key U \<noteq> Some KNaN \<longrightarrow>
            (\<forall>(k, c) \<in> set r. hash_key U \<noteq> Some k \<longrightarrow>
               (if send_raises w n k c then SendFailed k c
                else Delivered k c (json_dumps w m))
                 \<in> set (snd (broadcast_message w n m U r))) \<and>
            (\<forall>k c p. hash_key U = Some k \<longrightarrow>
               Delivered k c p \<notin> set (snd (broadcast_message w n m U r)) \<and>
               SendFailed k c \<notin> set (snd (broadcast_message w n m U r)))) \<and>
         (U = JNull \<or> hash_key U = Some KNaN \<longrightarrow>
            (\<forall>(k, c) \<in> set r.
               (if send_raises w n k c then SendFailed k c
                else Delivered k c (json_dumps w m))
                 \<in> set (snd (broadcast_message w n m U r))))"
proof -
  have t: "truthy_key k" if "(k, c) \<in> set r" for k c
    using reachable_truthy [OF assms, of k] that by force
  have skip: "excluded U k \<longleftrightarrow> hash_key U = Some k"
    if "(k, c) \<in> set r" and "hash_key U \<noteq> Some KNaN" for k c
    using t [OF that(1)] that(2) hash_key_truthy [of U k]
    by (auto simp: excluded_def py_eq_def)
  have none: "\<not> excluded U k" if "U = JNull \<or> hash_key U = Some KNaN" for k
    using that by (auto simp: excluded_def py_eq_def)
  show ?thesis
    using skip none
    by (auto simp: broadcast_effects delivered_iff send_failed_iff)
qed

theorem broadcast_recipients_witness:
  "reachable [(KInt 1, 4), (KInt 2, 5)] \<and>
   hash_key (JInt 1) = Some (KInt 1) \<and>
   snd (broadcast_message sample_world 0 (online_count_event 2) (JInt 1)
          [(KInt 1, 4), (KInt 2, 5)]) =
     [Serialize (online_count_event 2),
      Delivered (KInt 2) 5 (sample_json_dumps (online_count_event 2))] \<and>
   snd (broadcast_message sample_world 0 (online_count_event 2) JNull
          [(KInt 1, 4), (KInt 2, 5)]) =
     [Serialize (online_count_event 2),
      Delivered (KInt 1) 4 (sample_json_dumps (online_count_event 2)),
      Serialize (online_count_event 2),
      Delivered (KInt 2) 5 (sample_json_dumps (online_count_event 2))] \<and>
   hash_key (JFloat NaN) = Some KNaN \<and>
   snd (broadcast_message sample_world 0 (online_count_event 2) (JFloat NaN)
          [(KInt 1, 4), (KInt 2, 5)]) =
     [Serialize (online_count_event 2),
      Delivered (KInt 1) 4 (sample_json_dumps (online_count_event 2)),
      Serialize (online_count_event 2),
      Delivered (KInt 2) 5 (sample_json_dumps (online_count_event 2))]"
proof -
  have one: "register (JInt 1) 4 [] = Inr [(KInt 1, 4)]"
    by (simp add: register_def)
  have two: "register (JInt 2) 5 [(KInt 1, 4)] = Inr [(KInt 1, 4), (KInt 2, 5)]"
    by (simp add: register_def)
  have "reachable [(KInt 1, 4)]"
    using reachable.initial _ one by (rule reachable.registered) simp
  then have reach: "reachable [(KInt 1, 4), (KInt 2, 5)]"
    using _ two by (rule reachable.registered) simp
  from broadcast_recipients [OF reach, of "JInt 1" sample_world 0 "online_count_event 2"]
    broadcast_recipients [OF reach, of JNull sample_world 0 "online_count_event 2"]
    broadcast_recipients [OF reach, of "JFloat NaN" sample_world 0 "online_count_event 2"]
  show ?thesis
    using reach by (simp add: broadcast_message_def sample_world_def excluded_def py_eq_def)
qed

text \<open>
  Claim C7, as stated: one broadcast serializes the event exactly once. It does not:
  \<open>json.dumps(message)\<close> stands inside the loop (line 224), so with two recipients it
  is evaluated twice.
\<close>

theorem broadcast_serializes_once_counterexample:
  "serializations (snd (broadcast_message sample_world 0 (online_count_event 2) JNull
                          [(KInt 1, 4), (KInt 2, 5)])) = 2"
  by (simp add: broadcast_message_def sample_world_def serializations_def excluded_def)

text \<open>
  Claim C7, amended. One broadcast evaluates \<open>json.dumps\<close> once for each entry of the
  snapshot that is not excluded (not at all when there is none), each time on the event
  it was given, and every delivery of that broadcast sends the same serialized string.
\<close>

theorem broadcast_serializes_per_recipient:
  "serializations (snd (broadcast_message w n m U r)) =
     length (filter (\<lambda>e. \<not> excluded U (fst e)) r) \<and>
   (\<forall>m'. Serialize m' \<in> set (snd (broadcast_message w n m U r)) \<longrightarrow> m' = m) \<and>
   (\<forall>k c p. Delivered k c p \<in> set (snd (broadcast_message w n m U r)) \<longrightarrow> p = json_dumps w m)"
  by (simp add: broadcast_effects serializations_send_loop serialize_iff delivered_iff)

theorem broadcast_serializes_per_recipient_witness:
  "serializations (snd (broadcast_message sample_world 0 (online_count_event 2) (JInt 1)
                          [(KInt 1, 4), (KInt 2, 5), (KInt 3, 6)])) = 2 \<and>
   Delivered (KInt 3) 6 (sample_json_dumps (online_count_event 2))
     \<in> set (snd (broadcast_message sample_world 0 (online_count_event 2) (JInt 1)
                   [(KInt 1, 4), (KInt 2, 5), (KInt 3, 6)])) \<and>
   Serialize (online_count_event 2)
     \<in> set (snd (broadcast_message sample_world 0 (online_count_event 2) (JInt 1)
                   [(KInt 1, 4), (KInt 2, 5), (KInt 3, 6)]))"
proof -
  have effs: "snd (broadcast_message sample_world 0 (online_count_event 2) (JInt 1)
                     [(KInt 1, 4), (KInt 2, 5), (KInt 3, 6)]) =
     [Serialize (online_count_event 2),
      Delivered (KInt 2) 5 (sample_json_dumps (online_count_event 2)),
      Serialize (online_count_event 2),
      Delivered (KInt 3) 6 (sample_json_dumps (online_count_event 2))]"
    by (simp add: broadcast_message_def sample_world_def excluded_def py_eq_def)
  from broadcast_serializes_per_recipient
         [of sample_world 0 "online_count_event 2" "JInt 1" "[(KInt 1, 4), (KInt 2, 5), (KInt 3, 6)]"]
  show ?thesis using effs by (simp add: excluded_def py_eq_def)
qed

section \<open>Identity tokens\<close>

text \<open>
  Claim C1, as stated: every malformed token, one whose \<open>id\<close> is not an integer
  included, is refused and leaves the registry alone. It is not: the handlers never
  look at the type of \<open>id\<close>. With the payload \<open>{"id":"abc"}\<close> the websocket handler
  does not close the connection and registers it under the string, and \<open>send_message\<close>
  stores and broadcasts the message.
\<close>

theorem non_integer_id_accepted_counterexample:
  "token_shape sample_world (JStr token_abc) = IdPresent (JStr (lit ''abc'')) \<and>
   websocket sample_world 7 [(lit ''init_data'', token_abc)] [] [] =
     (WsWaiting, [(KStr (lit ''abc''), 7)],
      [ApiCall ''GET'' (lit ''user/profile'') (JDict [(lit ''user_id'', JStr (lit ''abc''))]),
       Serialize (online_count_event 1),
       Delivered (KStr (lit ''abc'')) 7 (sample_json_dumps (online_count_event 1))]) \<and>
   fst (send_message sample_world
          (JDict [(lit ''init_data'', JStr token_abc), (lit ''text'', JStr (lit ''hi''))]) []) =
     Inr (200, JDict [(lit ''success'', JBool True), (lit ''message'', sample_message)])"
  by (simp add: token_shape_def websocket_def send_message_def args_get_def extract_user_id_def
      sample_world_def sample_parse_qs_def sample_json_loads_def sample_http_def
      token_abc_def api_request_def announce_def announce_count_def broadcast_message_def
      strip_def isspace_def Let_def sample_message_def register_def excluded_def)

text \<open>
  Claim C1, amended. When the token is not decodable (\<open>parse_qs\<close> raises), or its
  \<open>user\<close> payload is not valid JSON or is JSON that is not an object, \<open>send_message\<close>
  answers 401 and the websocket handler closes the connection with the reason
  \<open>Invalid init_data\<close>. When the \<open>user\<close> field is absent, or \<open>id\<close> is missing or falsy
  (\<open>None\<close>, \<open>0\<close>, \<open>False\<close>, empty), the websocket handler closes the connection with the
  reason \<open>No user_id\<close>. In each of these cases the registry is left as it was and there
  is no call to the message store and no broadcast. The world is one in which
  \<open>json.loads\<close> reads the text \<open>{}\<close> as the empty object.
\<close>

theorem malformed_token_rejected:
  assumes "json_loads w (lit ''{}'') = Some (JDict [])"
  shows "(token_shape w init_data \<in> {Undecodable, UserEmpty, NotJson, NotObject} \<longrightarrow>
            py_get data (lit ''init_data'') (JStr []) = Some init_data \<longrightarrow>
            send_message w data r = (Inr (401, error_body ''Invalid init_data''), r, [])) \<and>
         (token_shape w (JStr (args_get args (lit ''init_data'') []))
              \<in> {Undecodable, UserEmpty, NotJson, NotObject} \<longrightarrow>
            websocket w ws args frames r = (WsReturned, r, [Closed ws ''Invalid init_data''])) \<and>
         (token_shape w (JStr (args_get args (lit ''init_data'') [])) \<in> {UserAbsent, IdMissing} \<or>
          (\<exists>v. token_shape w (JStr (args_get args (lit ''init_data'') [])) = IdPresent v \<and>
               \<not> truthy v) \<longrightarrow>
            websocket w ws args frames r = (WsReturned, r, [Closed ws ''No user_id'']))"
proof (intro conjI impI)
  assume "token_shape w init_data \<in> {Undecodable, UserEmpty, NotJson, NotObject}"
    and "py_get data (lit ''init_data'') (JStr []) = Some init_data"
  then show "send_message w data r = (Inr (401, error_body ''Invalid init_data''), r, [])"
    by (auto simp: send_message_extract_fails extract_by_shape)
next
  assume "token_shape w (JStr (args_get args (lit ''init_data'') []))
            \<in> {Undecodable, UserEmpty, NotJson, NotObject}"
  then show "websocket w ws args frames r = (WsReturned, r, [Closed ws ''Invalid init_data''])"
    by (auto simp: websocket_extract_fails extract_by_shape)
next
  assume "token_shape w (JStr (args_get args (lit ''init_data'') [])) \<in> {UserAbsent, IdMissing} \<or>
          (\<exists>v. token_shape w (JStr (args_get args (lit ''init_data'') [])) = IdPresent v \<and>
               \<not> truthy v)"
  then have "\<exists>v. extract_user_id w (JStr (args_get args (lit ''init_data'') [])) = Some v \<and>
                 \<not> truthy v"
    using assms by (auto simp: extract_by_shape)
  then show "websocket w ws args frames r = (WsReturned, r, [Closed ws ''No user_id''])"
    by (auto simp: websocket_falsy)
qed

theorem malformed_token_rejected_witness:
  "json_loads sample_world (lit ''{}'') = Some (JDict []) \<and>
   token_shape sample_world (JStr token_garbled) = NotJson \<and>
   send_message sample_world
       (JDict [(lit ''init_data'', JStr token_garbled), (lit ''text'', JStr (lit ''hi''))])
       [(KInt 1, 4)] =
     (Inr (401, error_body ''Invalid init_data''), [(KInt 1, 4)], []) \<and>
   websocket sample_world 7 [(lit ''init_data'', token_garbled)] [] [(KInt 1, 4)] =
     (WsReturned, [(KInt 1, 4)], [Closed 7 ''Invalid init_data'']) \<and>
   token_shape sample_world (JStr token_no_user) = UserAbsent \<and>
   websocket sample_world 7 [(lit ''init_data'', token_no_user)] [] [(KInt 1, 4)] =
     (WsReturned, [(KInt 1, 4)], [Closed 7 ''No user_id''])"
proof -
  have loads: "json_loads sample_world (lit ''{}'') = Some (JDict [])"
    by (simp add: sample_world_def sample_json_loads_def)
  have garbled: "token_shape sample_world (JStr token_garbled) = NotJson"
    by (simp add: token_shape_def sample_world_def sample_parse_qs_def sample_json_loads_def
        token_garbled_def token_abc_def token_zero_def token_42_def)
  have no_user: "token_shape sample_world (JStr token_no_user) = UserAbsent"
    by (simp add: token_shape_def sample_world_def sample_parse_qs_def
        token_no_user_def token_garbled_def token_abc_def token_zero_def token_42_def)
  from malformed_token_rejected [OF loads,
      where init_data = "JStr token_garbled"
        and data = "JDict [(lit ''init_data'', JStr token_garbled), (lit ''text'', JStr (lit ''hi''))]"
        and args = "[(lit ''init_data'', token_garbled)]"
        and r = "[(KInt 1, 4)]" and ws = 7 and frames = "[]"]
    malformed_token_rejected [OF loads,
      where init_data = "JStr token_garbled"
        and data = "JDict [(lit ''init_data'', JStr token_garbled), (lit ''text'', JStr (lit ''hi''))]"
        and args = "[(lit ''init_data'', token_no_user)]"
        and r = "[(KInt 1, 4)]" and ws = 7 and frames = "[]"]
  show ?thesis
    using loads garbled no_user by (simp add: args_get_def)
qed

text \<open>
  Claim C10. When the \<open>user\<close> payload of the token carries an \<open>id\<close> that is falsy
  (\<open>0\<close>, for one), extraction succeeds with that value, and the websocket handler closes
  the connection with the reason \<open>No user_id\<close> and returns: the registry is left as it
  was, and there is no profile fetch and no broadcast.
\<close>

theorem websocket_refuses_falsy_id:
  "token_shape w (JStr (args_get args (lit ''init_data'') [])) = IdPresent v \<Longrightarrow> \<not> truthy v \<Longrightarrow>
     extract_user_id w (JStr (args_get args (lit ''init_data'') [])) = Some v \<and>
     websocket w ws args frames r = (WsReturned, r, [Closed ws ''No user_id''])"
  by (simp add: extract_by_shape websocket_falsy)

theorem websocket_refuses_falsy_id_witness:
  "token_shape sample_world (JStr (args_get [(lit ''init_data'', token_zero)] (lit ''init_data'') []))
     = IdPresent (JInt 0) \<and>
   \<not> truthy (JInt 0) \<and>
   extract_user_id sample_world (JStr token_zero) = Some (JInt 0) \<and>
   websocket sample_world 7 [(lit ''init_data'', token_zero)] [Frame] [(KInt 1, 4)] =
     (WsReturned, [(KInt 1, 4)], [Closed 7 ''No user_id''])"
proof -
  have shape: "token_shape sample_world
                 (JStr (args_get [(lit ''init_data'', token_zero)] (lit ''init_data'') []))
               = IdPresent (JInt 0)"
    by (simp add: token_shape_def args_get_def sample_world_def sample_parse_qs_def
        sample_json_loads_def token_zero_def token_abc_def)
  have falsy: "\<not> truthy (JInt 0)"
    by simp
  from websocket_refuses_falsy_id [OF shape falsy, of 7 "[Frame]" "[(KInt 1, 4)]"]
  show ?thesis
    using shape falsy by (simp add: args_get_def)
qed

section \<open>Validation of the text\<close>

text \<open>
  Claim C5. Take a request that reaches the extraction of the text at line 120 (its
  body is an object whose \<open>text\<close> is absent or a string). When the trimmed text is empty
  or longer than 1000 characters, the handler makes no call to the message store and no
  broadcast and leaves the registry as it was, and it answers 400 \<open>Invalid message\<close>;
  the one exception is a request that identity extraction, which runs first, has
  already refused with 401. When the trimmed text has 1 to 1000 characters and identity
  extraction did not refuse the request, validation passes: the handler goes on to the
  store call with the trimmed text and answers 200 or 500.
\<close>

theorem send_message_validates_text:
  assumes "py_get data (lit ''text'') (JStr []) = Some (JStr raw)"
      and "py_get data (lit ''init_data'') (JStr []) = Some init_data"
  shows "(strip raw = [] \<or> 1000 < length (strip raw) \<longrightarrow>
            snd (send_message w data r) = (r, []) \<and>
            fst (send_message w data r) =
              (if extract_user_id w init_data = None
               then Inr (401, error_body ''Invalid init_data'')
               else Inr (400, error_body ''Invalid message''))) \<and>
         (strip raw \<noteq> [] \<and> length (strip raw) \<le> 1000 \<longrightarrow>
          extract_user_id w init_data \<noteq> None \<longrightarrow>
            (\<exists>status body r' payload effs.
               send_message w data r =
                 (Inr (status, body), r', ApiCall ''POST'' (lit ''send_message'') payload # effs) \<and>
               py_get payload (lit ''text'') JNull = Some (JStr (strip raw)) \<and>
               (status = 200 \<or> status = 500)))"
  using assms
  by (auto simp: send_message_def Let_def split: option.splits prod.splits)

theorem send_message_validates_text_witness:
  "send_message sample_world
       (JDict [(lit ''init_data'', JStr token_42), (lit ''text'', JStr (lit ''   ''))])
       [(KInt 1, 4)] =
     (Inr (400, error_body ''Invalid message''), [(KInt 1, 4)], []) \<and>
   send_message sample_world
       (JDict [(lit ''init_data'', JStr token_42), (lit ''text'', JStr (replicate 1001 97))])
       [(KInt 1, 4)] =
     (Inr (400, error_body ''Invalid message''), [(KInt 1, 4)], []) \<and>
   (\<exists>status body r' payload effs.
      send_message sample_world
          (JDict [(lit ''init_data'', JStr token_42), (lit ''text'', JStr (lit '' hi ''))])
          [(KInt 1, 4)] =
        (Inr (status, body), r', ApiCall ''POST'' (lit ''send_message'') payload # effs) \<and>
      py_get payload (lit ''text'') JNull = Some (JStr (lit ''hi'')) \<and>
      (status = 200 \<or> status = 500))"
proof -
  let ?blank = "JDict [(lit ''init_data'', JStr token_42), (lit ''text'', JStr (lit ''   ''))]"
  let ?over = "JDict [(lit ''init_data'', JStr token_42), (lit ''text'', JStr (replicate 1001 97))]"
  let ?padded = "JDict [(lit ''init_data'', JStr token_42), (lit ''text'', JStr (lit '' hi ''))]"
  have uid: "extract_user_id sample_world (JStr token_42) = Some (JInt 42)"
    by (simp add: extract_user_id_def sample_world_def sample_parse_qs_def
        sample_json_loads_def token_42_def token_abc_def token_zero_def)
  have blank: "strip (lit ''   '') = [] \<or> 1000 < length (strip (lit ''   ''))"
    by (simp add: strip_def isspace_def)
  have over: "strip (replicate 1001 97) = [] \<or> 1000 < length (strip (replicate 1001 97))"
    by (simp add: strip_def isspace_def)
  have padded: "strip (lit '' hi '') = lit ''hi''"
    by (simp add: strip_def isspace_def)
  have text_blank: "py_get ?blank (lit ''text'') (JStr []) = Some (JStr (lit ''   ''))"
    by simp
  have text_over: "py_get ?over (lit ''text'') (JStr []) = Some (JStr (replicate 1001 97))"
    by simp
  have text_padded: "py_get ?padded (lit ''text'') (JStr []) = Some (JStr (lit '' hi ''))"
    by simp
  have init_blank: "py_get ?blank (lit ''init_data'') (JStr []) = Some (JStr token_42)"
    by simp
  have init_over: "py_get ?over (lit ''init_data'') (JStr []) = Some (JStr token_42)"
    by simp
  have init_padded: "py_get ?padded (lit ''init_data'') (JStr []) = Some (JStr token_42)"
    by simp
  have a: "send_message sample_world ?blank [(KInt 1, 4)] =
             (Inr (400, error_body ''Invalid message''), [(KInt 1, 4)], [])"
    using send_message_validates_text
            [OF text_blank init_blank, of sample_world "[(KInt 1, 4)]",
             THEN conjunct1, rule_format, OF blank]
    by (simp add: uid prod_eq_iff)
  have b: "send_message sample_world ?over [(KInt 1, 4)] =
             (Inr (400, error_body ''Invalid message''), [(KInt 1, 4)], [])"
    using send_message_validates_text
            [OF text_over init_over, of sample_world "[(KInt 1, 4)]",
             THEN conjunct1, rule_format, OF over]
    by (simp add: uid prod_eq_iff)
  have valid: "strip (lit '' hi '') \<noteq> [] \<and> length (strip (lit '' hi '')) \<le> 1000"
    by (simp add: strip_def isspace_def)
  have passed: "extract_user_id sample_world (JStr token_42) \<noteq> None"
    by (simp add: uid)
  have c: "\<exists>status body r' payload effs.
      send_message sample_world ?padded [(KInt 1, 4)] =
        (Inr (status, body), r', ApiCall ''POST'' (lit ''send_message'') payload # effs) \<and>
      py_get payload (lit ''text'') JNull = Some (JStr (strip (lit '' hi ''))) \<and>
      (status = 200 \<or> status = 500)"
    using send_message_validates_text
            [OF text_padded init_padded, of sample_world "[(KInt 1, 4)]",
             THEN conjunct2, rule_format, OF valid passed]
    .
  from a b c show ?thesis
    by (simp only: padded)
qed

section \<open>\<open>get_messages\<close>\<close>

text \<open>
  Claim C9. The handler that lists messages is not total: there are requests whose
  \<open>limit\<close> or \<open>before_id\<close> is present and is no integer literal. On each of them
  \<open>int\<close> raises \<open>ValueError\<close>, nothing catches it, and the handler neither calls the
  store nor returns the \<open>{messages, has_more}\<close> response. (An empty \<open>before_id\<close> is
  skipped by the test of line 96.)
\<close>

theorem get_messages_unhandled_value_error:
  "(\<exists>s. map_of args (lit ''limit'') = Some s \<and> int_str w s = None) \<or>
   (\<exists>b. map_of args (lit ''before_id'') = Some b \<and> b \<noteq> [] \<and> int_str w b = None) \<Longrightarrow>
     get_messages w args = (Inl ValueError, [])"
  by (auto simp: get_messages_def split: option.splits)

theorem get_messages_unhandled_value_error_witness:
  "map_of [(lit ''limit'', lit ''abc'')] (lit ''limit'') = Some (lit ''abc'') \<and>
   int_str sample_world (lit ''abc'') = None \<and>
   get_messages sample_world [(lit ''limit'', lit ''abc'')] = (Inl ValueError, []) \<and>
   get_messages sample_world [(lit ''limit'', lit ''7''), (lit ''before_id'', lit ''abc'')] =
     (Inl ValueError, [])"
proof -
  have limit: "map_of [(lit ''limit'', lit ''abc'')] (lit ''limit'') = Some (lit ''abc'')"
    by simp
  have before_id:
    "map_of [(lit ''limit'', lit ''7''), (lit ''before_id'', lit ''abc'')] (lit ''before_id'')
       = Some (lit ''abc'')"
    by simp
  have no_int: "int_str sample_world (lit ''abc'') = None"
    by (simp add: sample_world_def sample_int_str_def)
  from get_messages_unhandled_value_error
         [of "[(lit ''limit'', lit ''abc'')]" sample_world]
       get_messages_unhandled_value_error
         [of "[(lit ''limit'', lit ''7''), (lit ''before_id'', lit ''abc'')]" sample_world]
  show ?thesis
    using limit before_id no_int by simp
qed

end
